theory Spec2Isabelle
  imports Main
begin

section \<open>Shared vocabulary\<close>

text \<open>
  Callbacks are JavaScript function objects. The code under study never looks inside
  them: it stores them, compares them by identity (\<open>remove\<close>, \<open>indexOf\<close>) and calls
  them. A callback is therefore modelled by its identity, a natural number. In the
  models of the single-consumer channel, of \<open>digestEffect\<close> and of the fork queue a
  call of a callback is an entry in a log; in the model of the scheduler and the
  multicast channel the callback's own code runs, as a script.
\<close>

type_synonym cb = nat

text \<open>
  What travels through a single-consumer channel: the sentinel \<open>END\<close>
  (\<open>export const END = { type: CHANNEL_END_TYPE }\<close>) or any other defined value.
\<close>

datatype 'a item = END | Item 'a

datatype error =
    InternalErr string
  | BufferOverflow
  | SubscribeError string

text \<open>
  Modelled from the spec: \<open>remove(array, item)\<close> of \<open>utils.js\<close>, which is not among
  the sources; "attach a cancel that removes it". It deletes the first occurrence of
  the item, and does nothing when the item is absent.
\<close>

definition remove :: "'a list \<Rightarrow> 'a \<Rightarrow> 'a list" where
  "remove array item = remove1 item array"


section \<open>The single-consumer channel (channel.js, function channel)\<close>

text \<open>
  \<open>buffers.js\<close> is not among the sources. The channel only uses the buffer through
  \<open>isEmpty\<close>, \<open>put\<close>, \<open>take\<close> and \<open>flush\<close>, so the buffer is a parameter: a state of
  any type \<open>'b\<close> and the four operations on it. \<open>buf_put\<close> returns \<open>None\<close> when the
  buffer throws (a full fixed buffer rejects the value).
\<close>

record ('a, 'b) buffer_ops =
  buf_isEmpty :: "'b \<Rightarrow> bool"
  buf_put :: "'a item \<Rightarrow> 'b \<Rightarrow> 'b option"
  buf_take :: "'b \<Rightarrow> 'a item \<times> 'b"
  buf_flush :: "'b \<Rightarrow> 'a item list \<times> 'b"

text \<open>
  Modelled from the spec: the default buffer \<open>buffers.expanding()\<close> of \<open>buffers.js\<close>;
  "expanding (unbounded)", "take (FIFO)", "flush (drain all)". The state is the list
  of buffered values, oldest first.
\<close>

definition expanding :: "('a, 'a item list) buffer_ops" where
  "expanding =
     \<lparr> buf_isEmpty = (\<lambda>b. b = []),
       buf_put = (\<lambda>v b. Some (b @ [v])),
       buf_take = (\<lambda>b. (hd b, tl b)),
       buf_flush = (\<lambda>b. (b, [])) \<rparr>"

text \<open>
  Modelled from the spec: \<open>buffers.none()\<close>, the default buffer of \<open>eventChannel\<close>;
  "none (buffer size 0; always full w.r.t. put)". It keeps nothing and is always
  empty.
\<close>

definition none_buffer :: "('a, unit) buffer_ops" where
  "none_buffer =
     \<lparr> buf_isEmpty = (\<lambda>b. True),
       buf_put = (\<lambda>v b. Some b),
       buf_take = (\<lambda>b. (END, b)),
       buf_flush = (\<lambda>b. ([], b)) \<rparr>"

text \<open>What a channel does to the outside world: the calls of callbacks, in order.\<close>

datatype 'a call =
    Delivered cb "'a item"
  | Flushed cb "'a item list"

text \<open>
  The closure variables of \<open>channel(buffer)\<close>: \<open>closed\<close>, \<open>takers\<close>, the buffer's
  state, and the log of callback calls made so far. Each function of the channel
  calls callbacks only after its last change of these variables, so whatever a
  callback does to the channel re-entrantly has the effect of operations issued
  after the call. The argument checks made in development mode only
  (\<open>check(input, is.notUndef, ...)\<close>, \<open>check(cb, is.func, ...)\<close>) cannot fail here: an
  input is a defined value and a callback is a function by their types.
\<close>

record ('a, 'b) chan =
  closed :: bool
  takers :: "cb list"
  buffer :: 'b
  calls :: "'a call list"

definition channel :: "'b \<Rightarrow> ('a, 'b) chan" where
  "channel b = \<lparr> closed = False, takers = [], buffer = b, calls = [] \<rparr>"

definition checkForbiddenStates :: "('a, 'b) buffer_ops \<Rightarrow> ('a, 'b) chan \<Rightarrow> error option" where
  "checkForbiddenStates B s =
     (if closed s \<and> takers s \<noteq> [] then
        Some (InternalErr ''Cannot have a closed channel with pending takers'')
      else if takers s \<noteq> [] \<and> \<not> buf_isEmpty B (buffer s) then
        Some (InternalErr ''Cannot have pending takers with non empty buffer'')
      else None)"

definition put_ch :: "('a, 'b) buffer_ops \<Rightarrow> 'a item \<Rightarrow> ('a, 'b) chan \<Rightarrow> error + ('a, 'b) chan" where
  "put_ch B input s =
     (case checkForbiddenStates B s of
        Some e \<Rightarrow> Inl e
      | None \<Rightarrow>
          if closed s then Inr s
          else
            (case takers s of
               [] \<Rightarrow>
                 (case buf_put B input (buffer s) of
                    None \<Rightarrow> Inl BufferOverflow
                  | Some b \<Rightarrow> Inr (s\<lparr>buffer := b\<rparr>))
             | cb # rest \<Rightarrow>
                 Inr (s\<lparr>takers := rest, calls := calls s @ [Delivered cb input]\<rparr>)))"

definition take_ch :: "('a, 'b) buffer_ops \<Rightarrow> cb \<Rightarrow> ('a, 'b) chan \<Rightarrow> error + ('a, 'b) chan" where
  "take_ch B cb s =
     (case checkForbiddenStates B s of
        Some e \<Rightarrow> Inl e
      | None \<Rightarrow>
          if closed s \<and> buf_isEmpty B (buffer s) then
            Inr (s\<lparr>calls := calls s @ [Delivered cb END]\<rparr>)
          else if \<not> buf_isEmpty B (buffer s) then
            (let (v, b) = buf_take B (buffer s)
             in Inr (s\<lparr>buffer := b, calls := calls s @ [Delivered cb v]\<rparr>))
          else
            Inr (s\<lparr>takers := takers s @ [cb]\<rparr>))"

text \<open>\<open>cb.cancel = () => remove(takers, cb)\<close>, the closure \<open>take\<close> attaches to a queued taker.\<close>

definition cancel_ch :: "cb \<Rightarrow> ('a, 'b) chan \<Rightarrow> ('a, 'b) chan" where
  "cancel_ch cb s = s\<lparr>takers := remove (takers s) cb\<rparr>"

definition flush_ch :: "('a, 'b) buffer_ops \<Rightarrow> cb \<Rightarrow> ('a, 'b) chan \<Rightarrow> error + ('a, 'b) chan" where
  "flush_ch B cb s =
     (case checkForbiddenStates B s of
        Some e \<Rightarrow> Inl e
      | None \<Rightarrow>
          if closed s \<and> buf_isEmpty B (buffer s) then
            Inr (s\<lparr>calls := calls s @ [Delivered cb END]\<rparr>)
          else
            (let (vs, b) = buf_flush B (buffer s)
             in Inr (s\<lparr>buffer := b, calls := calls s @ [Flushed cb vs]\<rparr>)))"

definition close_ch :: "('a, 'b) buffer_ops \<Rightarrow> ('a, 'b) chan \<Rightarrow> error + ('a, 'b) chan" where
  "close_ch B s =
     (case checkForbiddenStates B s of
        Some e \<Rightarrow> Inl e
      | None \<Rightarrow>
          if \<not> closed s then
            (let s1 = s\<lparr>closed := True\<rparr>
             in if takers s1 \<noteq> [] then
                  (let arr = takers s1
                   in Inr (s1\<lparr>takers := [],
                              calls := calls s1 @ map (\<lambda>taker. Delivered taker END) arr\<rparr>))
                else Inr s1)
          else Inr s)"

text \<open>
  A client of the channel: any sequence of calls of \<open>put\<close>, \<open>take\<close>, \<open>close\<close> and of
  the \<open>cancel\<close> closures handed out by \<open>take\<close>. A call that throws leaves the channel
  as it was, and the client goes on.
\<close>

datatype 'a chan_op = Put "'a item" | Take cb | Close | Cancel cb

definition chan_step :: "('a, 'b) buffer_ops \<Rightarrow> 'a chan_op \<Rightarrow> ('a, 'b) chan \<Rightarrow> error + ('a, 'b) chan" where
  "chan_step B op s =
     (case op of
        Put v \<Rightarrow> put_ch B v s
      | Take cb \<Rightarrow> take_ch B cb s
      | Close \<Rightarrow> close_ch B s
      | Cancel cb \<Rightarrow> Inr (cancel_ch cb s))"

fun chan_run :: "('a, 'b) buffer_ops \<Rightarrow> 'a chan_op list \<Rightarrow> ('a, 'b) chan \<Rightarrow> ('a, 'b) chan" where
  "chan_run B [] s = s"
| "chan_run B (op # ops) s =
     (case chan_step B op s of
        Inl e \<Rightarrow> chan_run B ops s
      | Inr s' \<Rightarrow> chan_run B ops s')"

text \<open>The two states \<open>checkForbiddenStates\<close> forbids, as an invariant.\<close>

definition chan_inv :: "('a, 'b) buffer_ops \<Rightarrow> ('a, 'b) chan \<Rightarrow> bool" where
  "chan_inv B s \<longleftrightarrow>
     (closed s \<longrightarrow> takers s = []) \<and> (takers s \<noteq> [] \<longrightarrow> buf_isEmpty B (buffer s))"


section \<open>The event channel (channel.js, function eventChannel)\<close>

text \<open>
  The variable \<open>unsubscribe\<close> of \<open>eventChannel\<close> holds, in turn: \<open>undefined\<close>, whatever
  \<open>subscribe\<close> returned (a function or something else), and \<open>once(unsubscribe)\<close>.
  \<open>OnceFn called\<close> is the wrapper made by \<open>once\<close> with its flag.
\<close>

datatype unsub = Undefined | NotAFunction | RawFn | OnceFn bool

text \<open>
  The closure variables of \<open>eventChannel\<close>: its own \<open>closed\<close> flag, \<open>unsubscribe\<close>,
  the inner channel \<open>chan\<close>, and how many times the function returned by \<open>subscribe\<close>
  has been called so far.
\<close>

record ('a, 'b) event_chan =
  closed_ev :: bool
  unsubscribe :: unsub
  chan :: "('a, 'b) chan"
  unsubscribed :: nat

text \<open>\<open>is.func(unsubscribe)\<close>.\<close>

definition is_func :: "unsub \<Rightarrow> bool" where
  "is_func u = (case u of Undefined \<Rightarrow> False | NotAFunction \<Rightarrow> False | RawFn \<Rightarrow> True | OnceFn c \<Rightarrow> True)"

text \<open>
  The call \<open>unsubscribe()\<close>. Modelled from the spec: \<open>once(fn)\<close> of \<open>utils.js\<close>, which
  is not among the sources; "unsubscribing exactly once": the wrapper calls \<open>fn\<close> on
  its first call only.
\<close>

definition call_unsubscribe :: "('a, 'b) event_chan \<Rightarrow> ('a, 'b) event_chan" where
  "call_unsubscribe s =
     (case unsubscribe s of
        RawFn \<Rightarrow> s\<lparr>unsubscribed := unsubscribed s + 1\<rparr>
      | OnceFn called \<Rightarrow>
          if called then s
          else s\<lparr>unsubscribe := OnceFn True, unsubscribed := unsubscribed s + 1\<rparr>
      | _ \<Rightarrow> s)"

text \<open>The closure \<open>close\<close> of \<open>eventChannel\<close>, also returned to the caller.\<close>

definition close_ev :: "('a, 'b) buffer_ops \<Rightarrow> ('a, 'b) event_chan \<Rightarrow> error + ('a, 'b) event_chan" where
  "close_ev B s =
     (let s1 = (if is_func (unsubscribe s) then call_unsubscribe s else s)
      in case close_ch B (chan s1) of
           Inl e \<Rightarrow> Inl e
         | Inr c \<Rightarrow> Inr (s1\<lparr>chan := c\<rparr>))"

text \<open>\<open>isEnd = a => a && a.type === CHANNEL_END_TYPE\<close>.\<close>

definition isEnd :: "'a item \<Rightarrow> bool" where
  "isEnd a = (case a of END \<Rightarrow> True | Item v \<Rightarrow> False)"

text \<open>The emitter handed to \<open>subscribe\<close>: \<open>input => { ... }\<close>.\<close>

definition emit :: "('a, 'b) buffer_ops \<Rightarrow> 'a item \<Rightarrow> ('a, 'b) event_chan \<Rightarrow> error + ('a, 'b) event_chan" where
  "emit B input s =
     (if isEnd input then
        (case close_ev B s of
           Inl e \<Rightarrow> Inl e
         | Inr s1 \<Rightarrow> Inr (s1\<lparr>closed_ev := True\<rparr>))
      else
        (case put_ch B input (chan s) of
           Inl e \<Rightarrow> Inl e
         | Inr c \<Rightarrow> Inr (s\<lparr>chan := c\<rparr>)))"

text \<open>
  The caller's \<open>subscribe\<close> function, as far as \<open>eventChannel\<close> can observe it: the
  inputs it emits synchronously, before it returns, and whether the value it returns
  is a function. An exception thrown by the emitter passes through \<open>subscribe\<close>.
\<close>

record 'a subscribe =
  emits :: "'a item list"
  returns_function :: bool

fun emit_all :: "('a, 'b) buffer_ops \<Rightarrow> 'a item list \<Rightarrow> ('a, 'b) event_chan \<Rightarrow> error + ('a, 'b) event_chan" where
  "emit_all B [] s = Inr s"
| "emit_all B (input # inputs) s =
     (case emit B input s of
        Inl e \<Rightarrow> Inl e
      | Inr s1 \<Rightarrow> emit_all B inputs s1)"

text \<open>The call \<open>subscribe(input => ...)\<close>: the state it leaves and the value it returns.\<close>

definition call_subscribe ::
  "('a, 'b) buffer_ops \<Rightarrow> 'a subscribe \<Rightarrow> ('a, 'b) event_chan \<Rightarrow> error + (unsub \<times> ('a, 'b) event_chan)" where
  "call_subscribe B sub s =
     (case emit_all B (emits sub) s of
        Inl e \<Rightarrow> Inl e
      | Inr s1 \<Rightarrow> Inr (if returns_function sub then RawFn else NotAFunction, s1))"

definition eventChannel ::
  "('a, 'b) buffer_ops \<Rightarrow> 'a subscribe \<Rightarrow> 'b \<Rightarrow> error + ('a, 'b) event_chan" where
  "eventChannel B sub b =
     (let s0 = \<lparr> closed_ev = False, unsubscribe = Undefined, chan = channel b, unsubscribed = 0 \<rparr>
      in case call_subscribe B sub s0 of
           Inl e \<Rightarrow> Inl e
         | Inr (u, s1) \<Rightarrow>
             (let s2 = s1\<lparr>unsubscribe := u\<rparr>
              in if \<not> is_func (unsubscribe s2) then
                   Inl (SubscribeError ''in eventChannel: subscribe should return a function to unsubscribe'')
                 else
                   (let s3 = s2\<lparr>unsubscribe := OnceFn False\<rparr>
                    in Inr (if closed_ev s3 then call_unsubscribe s3 else s3))))"

text \<open>
  What can happen to an event channel once it is built: the caller uses the returned
  \<open>take\<close>, \<open>flush\<close> and \<open>close\<close>, and the event source calls the emitter. A call that
  throws leaves the state as it was.
\<close>

datatype 'a event_op = EvTake cb | EvFlush cb | EvClose | EvEmit "'a item"

definition event_step ::
  "('a, 'b) buffer_ops \<Rightarrow> 'a event_op \<Rightarrow> ('a, 'b) event_chan \<Rightarrow> error + ('a, 'b) event_chan" where
  "event_step B op s =
     (case op of
        EvTake cb \<Rightarrow> (case take_ch B cb (chan s) of Inl e \<Rightarrow> Inl e | Inr c \<Rightarrow> Inr (s\<lparr>chan := c\<rparr>))
      | EvFlush cb \<Rightarrow> (case flush_ch B cb (chan s) of Inl e \<Rightarrow> Inl e | Inr c \<Rightarrow> Inr (s\<lparr>chan := c\<rparr>))
      | EvClose \<Rightarrow> close_ev B s
      | EvEmit input \<Rightarrow> emit B input s)"

fun event_run ::
  "('a, 'b) buffer_ops \<Rightarrow> 'a event_op list \<Rightarrow> ('a, 'b) event_chan \<Rightarrow> ('a, 'b) event_chan" where
  "event_run B [] s = s"
| "event_run B (op # ops) s =
     (case event_step B op s of
        Inl e \<Rightarrow> event_run B ops s
      | Inr s' \<Rightarrow> event_run B ops s')"

text \<open>
  An event channel whose subscription has ended: the once-wrapper has fired and the
  function returned by \<open>subscribe\<close> has been called one time.
\<close>

definition settled_ev :: "('a, 'b) event_chan \<Rightarrow> bool" where
  "settled_ev s \<longleftrightarrow> unsubscribe s = OnceFn True \<and> unsubscribed s = 1"


section \<open>The completion guard of an effect (proc.js, function digestEffect)\<close>

text \<open>
  \<open>digestEffect(effect, parentEffectId, label, cb)\<close> wraps the continuation \<open>cb\<close> in
  \<open>currCb\<close>, installs a cancel closure as \<open>cb.cancel\<close> and hands \<open>currCb\<close> to the effect
  runner. The runner may store its own cancellation function in \<open>currCb.cancel\<close>;
  that function belongs to the caller's world and may throw.
\<close>

datatype runner_cancel = Noop | RunnerCancel (throws: bool)

text \<open>The property \<open>cb.cancel\<close>: \<open>noop\<close>, or the closure \<open>digestEffect\<close> installs.\<close>

datatype cancel_slot = CancelNoop | CancelClosure

text \<open>
  What one digested effect does to the outside: the monitor's notifications, the
  call of the continuation \<open>cb\<close>, the call of the runner's cancellation function,
  and \<open>logError\<close>.
\<close>

datatype 'v effect_event =
    EffectTriggered
  | EffectResolved 'v
  | EffectRejected 'v
  | EffectCancelled
  | ContinuationCalled 'v bool
  | RunnerCancelCalled
  | ErrorLogged

text \<open>
  The variables one call of \<open>digestEffect\<close> closes over: \<open>effectSettled\<close>, \<open>cb.cancel\<close>,
  \<open>currCb.cancel\<close>, whether \<open>crashedEffect\<close> has been set to this effect, and the log.
\<close>

record 'v digest =
  effectSettled :: bool
  cb_cancel :: cancel_slot
  currCb_cancel :: runner_cancel
  crashed :: bool
  trace :: "'v effect_event list"

text \<open>
  The state \<open>digestEffect\<close> sets up before it calls \<open>runEffect\<close>; \<open>monitor\<close> tells
  whether a \<open>sagaMonitor\<close> was given.
\<close>

definition digestEffect :: "bool \<Rightarrow> 'v digest" where
  "digestEffect monitor =
     \<lparr> effectSettled = False, cb_cancel = CancelClosure, currCb_cancel = Noop,
       crashed = False, trace = (if monitor then [EffectTriggered] else []) \<rparr>"

text \<open>\<open>function currCb(res, isErr)\<close>.\<close>

definition currCb :: "bool \<Rightarrow> 'v \<Rightarrow> bool \<Rightarrow> 'v digest \<Rightarrow> 'v digest" where
  "currCb monitor res isErr s =
     (if effectSettled s then s
      else
        (let s1 = s\<lparr>effectSettled := True, cb_cancel := CancelNoop\<rparr>;
             s2 = (if monitor then
                     s1\<lparr>trace := trace s1 @ [if isErr then EffectRejected res else EffectResolved res]\<rparr>
                   else s1);
             s3 = (if isErr then s2\<lparr>crashed := True\<rparr> else s2)
         in s3\<lparr>trace := trace s3 @ [ContinuationCalled res isErr]\<rparr>))"

text \<open>The call \<open>currCb.cancel()\<close> inside \<open>try { ... } catch (err) { logError(err) }\<close>.\<close>

definition call_currCb_cancel :: "'v digest \<Rightarrow> 'v digest" where
  "call_currCb_cancel s =
     (case currCb_cancel s of
        Noop \<Rightarrow> s
      | RunnerCancel t \<Rightarrow>
          (let s1 = s\<lparr>trace := trace s @ [RunnerCancelCalled]\<rparr>
           in if t then s1\<lparr>trace := trace s1 @ [ErrorLogged]\<rparr> else s1))"

text \<open>The closure \<open>cb.cancel = () => { ... }\<close> installed by \<open>digestEffect\<close>.\<close>

definition installed_cancel :: "bool \<Rightarrow> 'v digest \<Rightarrow> 'v digest" where
  "installed_cancel monitor s =
     (if effectSettled s then s
      else
        (let s1 = s\<lparr>effectSettled := True\<rparr>;
             s2 = call_currCb_cancel s1;
             s3 = s2\<lparr>currCb_cancel := Noop\<rparr>
         in if monitor then s3\<lparr>trace := trace s3 @ [EffectCancelled]\<rparr> else s3))"

text \<open>The call \<open>cb.cancel()\<close> through the property, whatever it holds at that time.\<close>

definition call_cb_cancel :: "bool \<Rightarrow> 'v digest \<Rightarrow> 'v digest" where
  "call_cb_cancel monitor s =
     (case cb_cancel s of
        CancelNoop \<Rightarrow> s
      | CancelClosure \<Rightarrow> installed_cancel monitor s)"

text \<open>
  Everything the effect runner and the owner of \<open>cb\<close> can do with one digested effect,
  in any order and any number of times: the runner stores a cancellation function in
  \<open>currCb.cancel\<close>, the runner completes the effect through \<open>currCb\<close>, the owner calls
  the installed closure (which it may have kept), or calls \<open>cb.cancel()\<close>.
\<close>

datatype 'v digest_op =
    SetCurrCbCancel runner_cancel
  | Complete 'v bool
  | CallInstalledCancel
  | CallCbCancel

definition digest_step :: "bool \<Rightarrow> 'v digest_op \<Rightarrow> 'v digest \<Rightarrow> 'v digest" where
  "digest_step monitor op s =
     (case op of
        SetCurrCbCancel f \<Rightarrow> s\<lparr>currCb_cancel := f\<rparr>
      | Complete res isErr \<Rightarrow> currCb monitor res isErr s
      | CallInstalledCancel \<Rightarrow> installed_cancel monitor s
      | CallCbCancel \<Rightarrow> call_cb_cancel monitor s)"

definition digest_run :: "bool \<Rightarrow> 'v digest_op list \<Rightarrow> 'v digest \<Rightarrow> 'v digest" where
  "digest_run monitor ops s = foldl (\<lambda>s op. digest_step monitor op s) s ops"

text \<open>The settlements recorded in a log: calls of \<open>cb\<close> and calls of the runner's cancel.\<close>

definition is_continuation :: "'v effect_event \<Rightarrow> bool" where
  "is_continuation e = (case e of ContinuationCalled r i \<Rightarrow> True | _ \<Rightarrow> False)"

definition is_runner_cancel :: "'v effect_event \<Rightarrow> bool" where
  "is_runner_cancel e = (case e of RunnerCancelCalled \<Rightarrow> True | _ \<Rightarrow> False)"

definition settlements :: "'v digest \<Rightarrow> nat" where
  "settlements s =
     length (filter is_continuation (trace s)) + length (filter is_runner_cancel (trace s))"

text \<open>An unsettled effect has had no settlement; a settled one has had at most one.\<close>

definition digest_inv :: "'v digest \<Rightarrow> bool" where
  "digest_inv s \<longleftrightarrow> settlements s \<le> 1 \<and> (\<not> effectSettled s \<longrightarrow> settlements s = 0)"


section \<open>The fork queue and the task of a procedure (proc.js: forkQueue, cancel, end)\<close>

text \<open>
  A member of a fork queue is a task object: the procedure's own \<open>mainTask\<close> or the
  descriptor of a forked child. The queue compares members by identity and reads
  \<open>t.meta.name\<close>; both are kept here.
\<close>

datatype task = Task (ident: nat) (name: string)






















section \<open>The scheduler, the multicast channel and the standard channel\<close>

text \<open>
  \<open>scheduler.js\<close> and the functions \<open>multicastChannel\<close> and \<open>stdChannel\<close> of
  \<open>channel.js\<close> call back into code they do not know: a scheduled task is a function
  of the caller, and so is a taker. That code may call the scheduler and the channel
  again while the outer call is still on the stack. This section models the three
  of them together, with the foreign code as scripts.
\<close>

subsection \<open>Values and foreign code\<close>

text \<open>
  An input of the multicast channel, as far as the channel looks at it: \<open>input.type\<close>
  and the flag \<open>input[SAGA_ACTION]\<close>.
\<close>

record action =
  atype :: string
  saga_action :: bool

text \<open>
  Modelled from the spec: the constant \<open>CHANNEL_END_TYPE\<close> of \<open>symbols.js\<close>, which is
  not among the sources; "END (envelope with a distinguished type injected into
  channels to terminate them)". Only its being one fixed string matters.
\<close>

definition CHANNEL_END_TYPE :: string where
  "CHANNEL_END_TYPE = ''@@redux-saga/CHANNEL_END''"

text \<open>\<open>export const END = { type: CHANNEL_END_TYPE }\<close>.\<close>

definition END_action :: action where
  "END_action = \<lparr> atype = CHANNEL_END_TYPE, saga_action = False \<rparr>"

text \<open>\<open>export const isEnd = a => a && a.type === CHANNEL_END_TYPE\<close>.\<close>

definition isEnd_action :: "action \<Rightarrow> bool" where
  "isEnd_action a \<longleftrightarrow> atype a = CHANNEL_END_TYPE"

text \<open>
  A function handed to \<open>asap\<close>: the closure \<open>() => put(input)\<close> that \<open>stdChannel\<close> makes,
  or any other function of the caller, known by a number.
\<close>

datatype job = PutJob action | UserJob nat

text \<open>
  What foreign code can do to the runtime: call \<open>asap\<close>, \<open>suspend\<close>, \<open>flush\<close>; call the
  multicast channel's \<open>put\<close>, \<open>take\<close>, \<open>close\<close>; call the standard channel's \<open>put\<close>;
  call \<open>cb.cancel()\<close> on a callback (\<open>CancelOf\<close>) or a cancel closure it kept from an
  earlier \<open>take\<close> (\<open>CancelKept\<close>, the closures numbered in order of creation); or throw.
\<close>

datatype instr =
    Asap job
  | Suspend
  | Flush
  | PutMc action
  | TakeMc cb "action \<Rightarrow> bool"
  | CloseMc
  | PutStd action
  | CancelOf cb
  | CancelKept nat
  | Throw

text \<open>What the runtime does to foreign code: it starts and leaves a task, and calls a taker.\<close>

datatype event = Begin job | End job | Invoked cb action

text \<open>
  The foreign code itself. A task or a taker, when called, performs a sequence of
  instructions. The sequence may depend on everything that has happened so far (the
  log at the moment of the call), so the functions stand for arbitrary deterministic
  callbacks with a state of their own.
\<close>

record env =
  body :: "event list \<Rightarrow> nat \<Rightarrow> instr list"
  react :: "event list \<Rightarrow> cb \<Rightarrow> action \<Rightarrow> instr list"

subsection \<open>State\<close>

text \<open>
  \<open>Running\<close>: normal execution. \<open>Thrown\<close>: an exception is propagating.
  \<open>Exhausted\<close>: the execution was cut off because the fuel ran out.
\<close>

datatype status = Running | Thrown | Exhausted

text \<open>
  The module variables of \<open>scheduler.js\<close> (\<open>queue\<close>, \<open>semaphore\<close>) and the closure
  variables of one \<open>multicastChannel()\<close>. \<open>currentTakers\<close> and \<open>nextTakers\<close> are
  references: \<open>arrays\<close> maps a reference to the array's contents, \<open>allocated\<close> is the
  next unused reference. \<open>match_of cb\<close> is \<open>cb[MATCH]\<close> and \<open>cancel_of cb\<close> is \<open>cb.cancel\<close>
  (\<open>None\<close> when never set); \<open>onces\<close> lists the closures made by \<open>once(...)\<close> in \<open>take\<close>,
  each with the callback it captured and its \<open>called\<close> flag.
\<close>

record runtime =
  semaphore :: int
  queue :: "job list"
  closed_mc :: bool
  currentTakers :: nat
  nextTakers :: nat
  arrays :: "nat \<Rightarrow> cb list"
  allocated :: nat
  match_of :: "cb \<Rightarrow> action \<Rightarrow> bool"
  cancel_of :: "cb \<Rightarrow> nat option"
  onces :: "(cb \<times> bool) list"
  hist :: "event list"
  status :: status

text \<open>
  Nothing scheduled, no lock; a fresh multicast channel, whose \<open>currentTakers\<close> and
  \<open>nextTakers\<close> are the same empty array.
\<close>

definition runtime0 :: runtime where
  "runtime0 =
     \<lparr> semaphore = 0, queue = [], closed_mc = False, currentTakers = 0, nextTakers = 0,
       arrays = (\<lambda>a. []), allocated = 1, match_of = (\<lambda>cb input. True),
       cancel_of = (\<lambda>cb. None), onces = [], hist = [], status = Running \<rparr>"

definition record_hist :: "event \<Rightarrow> runtime \<Rightarrow> runtime" where
  "record_hist ev s = s\<lparr>hist := hist s @ [ev]\<rparr>"

definition throw :: "runtime \<Rightarrow> runtime" where
  "throw s = s\<lparr>status := Thrown\<rparr>"

definition exhaust :: "runtime \<Rightarrow> runtime" where
  "exhaust s = s\<lparr>status := Exhausted\<rparr>"

text \<open>A call into foreign code: run a task, or call a taker with an input.\<close>

datatype callee = Job job | Taker cb action

subsection \<open>scheduler.js\<close>

text \<open>
  Every function below that may reach foreign code takes \<open>call\<close>, the way to run it,
  and \<open>n\<close>, the fuel for its own loops.
\<close>

definition suspend :: "runtime \<Rightarrow> runtime" where
  "suspend s = s\<lparr>semaphore := semaphore s + 1\<rparr>"

definition release :: "runtime \<Rightarrow> runtime" where
  "release s = s\<lparr>semaphore := semaphore s - 1\<rparr>"

text \<open>\<open>try { suspend(); task() } finally { release() }\<close>.\<close>

definition exec :: "(callee \<Rightarrow> runtime \<Rightarrow> runtime) \<Rightarrow> job \<Rightarrow> runtime \<Rightarrow> runtime" where
  "exec call task s =
     (let s1 = suspend s;
          s2 = call (Job task) s1
      in if status s2 = Exhausted then s2 else release s2)"

text \<open>
  The loop of \<open>flush\<close>: \<open>while (!semaphore && (task = queue.shift()) !== undefined)
  exec(task)\<close>.
\<close>

fun flush_loop :: "(callee \<Rightarrow> runtime \<Rightarrow> runtime) \<Rightarrow> nat \<Rightarrow> runtime \<Rightarrow> runtime" where
  "flush_loop call 0 s = (if semaphore s = 0 \<and> queue s \<noteq> [] then exhaust s else s)"
| "flush_loop call (Suc n) s =
     (if semaphore s = 0 then
        (case queue s of
           [] \<Rightarrow> s
         | task # rest \<Rightarrow>
             (let s1 = exec call task (s\<lparr>queue := rest\<rparr>)
              in if status s1 = Running then flush_loop call n s1 else s1))
      else s)"

definition flush :: "(callee \<Rightarrow> runtime \<Rightarrow> runtime) \<Rightarrow> nat \<Rightarrow> runtime \<Rightarrow> runtime" where
  "flush call n s = flush_loop call n (release s)"

definition asap :: "(callee \<Rightarrow> runtime \<Rightarrow> runtime) \<Rightarrow> nat \<Rightarrow> job \<Rightarrow> runtime \<Rightarrow> runtime" where
  "asap call n task s =
     (let s1 = s\<lparr>queue := queue s @ [task]\<rparr>
      in if semaphore s1 = 0 then flush call n (suspend s1) else s1)"

subsection \<open>channel.js, function multicastChannel\<close>

definition ensureCanMutateNextTakers :: "runtime \<Rightarrow> runtime" where
  "ensureCanMutateNextTakers s =
     (if nextTakers s \<noteq> currentTakers s then s
      else s\<lparr>arrays := (arrays s)(allocated s := arrays s (currentTakers s)),
              nextTakers := allocated s,
              allocated := allocated s + 1\<rparr>)"

text \<open>
  A call of the closure number \<open>k\<close> made by \<open>once(() => { ensureCanMutateNextTakers();
  remove(nextTakers, cb) })\<close>. Modelled from the spec: \<open>once\<close> of \<open>utils.js\<close>, which is
  not among the sources; "attach a once-only cancel that removes cb from nextTakers".
  A script that names a closure not made yet does nothing.
\<close>

definition cancel_closure :: "nat \<Rightarrow> runtime \<Rightarrow> runtime" where
  "cancel_closure k s =
     (if k < length (onces s) then
        (let (cb, called) = onces s ! k
         in if called then s
            else
              (let s1 = s\<lparr>onces := (onces s)[k := (cb, True)]\<rparr>;
                   s2 = ensureCanMutateNextTakers s1
               in s2\<lparr>arrays := (arrays s2)(nextTakers s2 := remove (arrays s2 (nextTakers s2)) cb)\<rparr>))
      else s)"

text \<open>The call \<open>taker.cancel()\<close>; a \<open>TypeError\<close> when the property was never set.\<close>

definition call_cancel :: "cb \<Rightarrow> runtime \<Rightarrow> runtime" where
  "call_cancel cb s =
     (case cancel_of s cb of
        None \<Rightarrow> throw s
      | Some k \<Rightarrow> cancel_closure k s)"

text \<open>
  The loop of \<open>close\<close>: \<open>for (let i = 0; i < takers.length; i++) { const taker =
  takers[i]; taker(END) }\<close>, where \<open>takers\<close> is the reference \<open>a\<close>.
\<close>

fun close_loop :: "(callee \<Rightarrow> runtime \<Rightarrow> runtime) \<Rightarrow> nat \<Rightarrow> nat \<Rightarrow> nat \<Rightarrow> runtime \<Rightarrow> runtime" where
  "close_loop call 0 a i s = (if i < length (arrays s a) then exhaust s else s)"
| "close_loop call (Suc n) a i s =
     (if i < length (arrays s a) then
        (let taker = arrays s a ! i;
             s1 = call (Taker taker END_action) s
         in if status s1 = Running then close_loop call n a (i + 1) s1 else s1)
      else s)"

definition close_mc :: "(callee \<Rightarrow> runtime \<Rightarrow> runtime) \<Rightarrow> nat \<Rightarrow> runtime \<Rightarrow> runtime" where
  "close_mc call n s =
     (let s1 = s\<lparr>closed_mc := True\<rparr>;
          s2 = s1\<lparr>currentTakers := nextTakers s1\<rparr>;
          s3 = close_loop call n (currentTakers s2) 0 s2
      in if status s3 = Running then
           s3\<lparr>arrays := (arrays s3)(allocated s3 := []),
              nextTakers := allocated s3,
              allocated := allocated s3 + 1\<rparr>
         else s3)"

text \<open>
  The loop of \<open>put\<close>: \<open>for (let i = 0; i < takers.length; i++) { const taker =
  takers[i]; if (taker[MATCH](input)) { taker.cancel(); taker(input) } }\<close>, where
  \<open>takers\<close> is the reference \<open>a\<close>. The length and the element are read from the array
  as it is at each iteration.
\<close>

fun put_loop ::
  "(callee \<Rightarrow> runtime \<Rightarrow> runtime) \<Rightarrow> nat \<Rightarrow> nat \<Rightarrow> action \<Rightarrow> nat \<Rightarrow> runtime \<Rightarrow> runtime" where
  "put_loop call 0 a input i s = (if i < length (arrays s a) then exhaust s else s)"
| "put_loop call (Suc n) a input i s =
     (if i < length (arrays s a) then
        (let taker = arrays s a ! i;
             s1 = (if match_of s taker input then
                     (let s2 = call_cancel taker s
                      in if status s2 = Running then call (Taker taker input) s2 else s2)
                   else s)
         in if status s1 = Running then put_loop call n a input (i + 1) s1 else s1)
      else s)"

definition put_mc :: "(callee \<Rightarrow> runtime \<Rightarrow> runtime) \<Rightarrow> nat \<Rightarrow> action \<Rightarrow> runtime \<Rightarrow> runtime" where
  "put_mc call n input s =
     (if closed_mc s then s
      else if isEnd_action input then close_mc call n s
      else
        (let s1 = s\<lparr>currentTakers := nextTakers s\<rparr>
         in put_loop call n (currentTakers s1) input 0 s1))"

definition take_mc ::
  "(callee \<Rightarrow> runtime \<Rightarrow> runtime) \<Rightarrow> cb \<Rightarrow> (action \<Rightarrow> bool) \<Rightarrow> runtime \<Rightarrow> runtime" where
  "take_mc call cb matcher s =
     (if closed_mc s then call (Taker cb END_action) s
      else
        (let s1 = s\<lparr>match_of := (match_of s)(cb := matcher)\<rparr>;
             s2 = ensureCanMutateNextTakers s1;
             s3 = s2\<lparr>arrays := (arrays s2)(nextTakers s2 := arrays s2 (nextTakers s2) @ [cb])\<rparr>
         in s3\<lparr>cancel_of := (cancel_of s3)(cb \<mapsto> length (onces s3)),
               onces := onces s3 @ [(cb, False)]\<rparr>))"

subsection \<open>channel.js, function stdChannel\<close>

text \<open>\<open>chan.put = input => { if (input[SAGA_ACTION]) { put(input); return } asap(() => put(input)) }\<close>.\<close>

definition put_std :: "(callee \<Rightarrow> runtime \<Rightarrow> runtime) \<Rightarrow> nat \<Rightarrow> action \<Rightarrow> runtime \<Rightarrow> runtime" where
  "put_std call n input s =
     (if saga_action input then put_mc call n input s
      else asap call n (PutJob input) s)"

subsection \<open>Running foreign code\<close>

definition step :: "(callee \<Rightarrow> runtime \<Rightarrow> runtime) \<Rightarrow> nat \<Rightarrow> instr \<Rightarrow> runtime \<Rightarrow> runtime" where
  "step call n i s =
     (case i of
        Asap task \<Rightarrow> asap call n task s
      | Suspend \<Rightarrow> suspend s
      | Flush \<Rightarrow> flush call n s
      | PutMc input \<Rightarrow> put_mc call n input s
      | TakeMc cb matcher \<Rightarrow> take_mc call cb matcher s
      | CloseMc \<Rightarrow> close_mc call n s
      | PutStd input \<Rightarrow> put_std call n input s
      | CancelOf cb \<Rightarrow> call_cancel cb s
      | CancelKept k \<Rightarrow> cancel_closure k s
      | Throw \<Rightarrow> throw s)"

text \<open>A script runs instruction by instruction and stops at an exception.\<close>

fun run :: "(callee \<Rightarrow> runtime \<Rightarrow> runtime) \<Rightarrow> nat \<Rightarrow> instr list \<Rightarrow> runtime \<Rightarrow> runtime" where
  "run call n [] s = s"
| "run call n (i # is) s =
     (let s1 = step call n i s
      in if status s1 = Running then run call n is s1 else s1)"

text \<open>
  The call of a task or of a taker with fuel \<open>n\<close>. A task is on the stack between its
  \<open>Begin\<close> and its \<open>End\<close>; the closure \<open>() => put(input)\<close> calls the multicast \<open>put\<close>.
\<close>

primrec invoke :: "env \<Rightarrow> nat \<Rightarrow> callee \<Rightarrow> runtime \<Rightarrow> runtime" where
  "invoke e 0 c s = exhaust s"
| "invoke e (Suc n) c s =
     (case c of
        Job task \<Rightarrow>
          (let s1 = record_hist (Begin task) s;
               s2 = (case task of
                       PutJob input \<Rightarrow> put_mc (invoke e n) n input s1
                     | UserJob k \<Rightarrow> run (invoke e n) n (body e (hist s1) k) s1)
           in if status s2 = Exhausted then s2 else record_hist (End task) s2)
      | Taker cb input \<Rightarrow>
          (let s1 = record_hist (Invoked cb input) s
           in run (invoke e n) n (react e (hist s1) cb input) s1))"

text \<open>
  The host program: a sequence of instructions at top level. An exception reaches
  the host, which goes on with the next instruction; an execution cut off for lack
  of fuel stays cut off.
\<close>

fun host :: "env \<Rightarrow> nat \<Rightarrow> instr list \<Rightarrow> runtime \<Rightarrow> runtime" where
  "host e n [] s = s"
| "host e n (i # is) s =
     (let s1 = step (invoke e n) n i s
      in if status s1 = Exhausted then s1 else host e n is (s1\<lparr>status := Running\<rparr>))"


subsection \<open>Notions used to state the properties of the runtime\<close>







text \<open>
  Reading a log from the left with the task on the stack, if any: \<open>no_nesting\<close> says
  that every task begins while no task is on the stack and that the task that ends
  is the one on the stack; \<open>on_stack\<close> is the task on the stack at the end of the log.
\<close>

fun no_nesting :: "job option \<Rightarrow> event list \<Rightarrow> bool" where
  "no_nesting cur [] = True"
| "no_nesting cur (Begin t # evs) = (cur = None \<and> no_nesting (Some t) evs)"
| "no_nesting cur (End t # evs) = (cur = Some t \<and> no_nesting None evs)"
| "no_nesting cur (Invoked cb input # evs) = no_nesting cur evs"

fun on_stack :: "job option \<Rightarrow> event list \<Rightarrow> job option" where
  "on_stack cur [] = cur"
| "on_stack cur (Begin t # evs) = on_stack (Some t) evs"
| "on_stack cur (End t # evs) = on_stack None evs"
| "on_stack cur (Invoked cb input # evs) = on_stack cur evs"

text \<open>The starts and ends of tasks in a log.\<close>

fun is_job_event :: "event \<Rightarrow> bool" where
  "is_job_event (Begin t) = True"
| "is_job_event (End t) = True"
| "is_job_event (Invoked cb input) = False"

definition jobs_of :: "runtime \<Rightarrow> event list" where
  "jobs_of s = filter is_job_event (hist s)"



text \<open>
  \<open>idle\<close>: tasks have run one after the other and none is on the stack. \<open>good\<close>: the
  same, except that an execution cut off for lack of fuel may have stopped inside a
  task.
\<close>

definition idle :: "runtime \<Rightarrow> bool" where
  "idle s \<longleftrightarrow> no_nesting None (hist s) \<and> on_stack None (hist s) = None"

definition good :: "runtime \<Rightarrow> bool" where
  "good s \<longleftrightarrow> no_nesting None (hist s) \<and> (status s \<noteq> Exhausted \<longrightarrow> on_stack None (hist s) = None)"

definition serial :: "runtime \<Rightarrow> runtime \<Rightarrow> bool" where
  "serial s s' \<longleftrightarrow> (idle s \<longrightarrow> good s')"




subsection \<open>Sample foreign code\<close>

text \<open>An action dispatched by the host, and an action put by a procedure.\<close>

definition plain :: "string \<Rightarrow> action" where
  "plain t = \<lparr> atype = t, saga_action = False \<rparr>"

definition internal :: "string \<Rightarrow> action" where
  "internal t = \<lparr> atype = t, saga_action = True \<rparr>"

text \<open>Patterns: the wildcard, and a string matched against \<open>input.type\<close>.\<close>

definition wildcard :: "action \<Rightarrow> bool" where
  "wildcard input = True"

definition of_type :: "string \<Rightarrow> action \<Rightarrow> bool" where
  "of_type t input \<longleftrightarrow> atype input = t"

text \<open>Takers and tasks that do nothing.\<close>

definition env_silent :: env where
  "env_silent = \<lparr> body = (\<lambda>h k. []), react = (\<lambda>h cb input. []) \<rparr>"




section \<open>Properties of the single-consumer channel\<close>

lemmas chan_eval = chan_step_def put_ch_def take_ch_def close_ch_def cancel_ch_def
  checkForbiddenStates_def channel_def expanding_def remove_def

lemma chan_inv_channel: "chan_inv B (channel b)"
  by (simp add: chan_inv_def channel_def)

lemma chan_inv_put: "chan_inv B s \<Longrightarrow> put_ch B v s = Inr s' \<Longrightarrow> chan_inv B s'"
  by (auto simp: chan_inv_def put_ch_def split: option.splits if_splits list.splits)

lemma chan_inv_take: "chan_inv B s \<Longrightarrow> take_ch B cb s = Inr s' \<Longrightarrow> chan_inv B s'"
  by (auto simp: chan_inv_def take_ch_def Let_def split: option.splits if_splits prod.splits)

lemma chan_inv_close: "chan_inv B s \<Longrightarrow> close_ch B s = Inr s' \<Longrightarrow> chan_inv B s'"
  by (auto simp: chan_inv_def close_ch_def Let_def split: option.splits if_splits)

lemma chan_inv_cancel: "chan_inv B s \<Longrightarrow> chan_inv B (cancel_ch cb s)"
  by (auto simp: chan_inv_def cancel_ch_def remove_def)

lemma chan_inv_step: "chan_inv B s \<Longrightarrow> chan_step B op s = Inr s' \<Longrightarrow> chan_inv B s'"
  by (cases op)
     (auto simp: chan_step_def dest: chan_inv_put chan_inv_take chan_inv_close chan_inv_cancel)

lemma chan_inv_run: "chan_inv B s \<Longrightarrow> chan_inv B (chan_run B ops s)"
proof (induction ops arbitrary: s)
  case Nil
  then show ?case by simp
next
  case (Cons op ops)
  show ?case
  proof (cases "chan_step B op s")
    case (Inl e)
    with Cons show ?thesis by simp
  next
    case (Inr s')
    with Cons have "chan_inv B s'" by (blast intro: chan_inv_step)
    with Cons Inr show ?thesis by simp
  qed
qed


text \<open>
  Claim C3. Start from a fresh channel and let a client call \<open>put\<close>, \<open>take\<close>, \<open>close\<close>
  (and the \<open>cancel\<close> closures of queued takers) any number of times, in any order.
  In the state reached, a closed channel has no pending taker, and a channel with a
  pending taker has an empty buffer. This holds for every buffer implementation.
\<close>

theorem channel_forbidden_states_unreachable:
  "(closed (chan_run B ops (channel b)) \<longrightarrow> takers (chan_run B ops (channel b)) = []) \<and>
   (takers (chan_run B ops (channel b)) \<noteq> [] \<longrightarrow>
      buf_isEmpty B (buffer (chan_run B ops (channel b))))"
  using chan_inv_run [OF chan_inv_channel, of B ops b] by (simp add: chan_inv_def)

theorem channel_forbidden_states_unreachable_witness:
  "closed (chan_run expanding [Take 1, Put (Item (5::nat)), Put (Item 6), Close] (channel [])) \<and>
   takers (chan_run expanding [Take 1, Put (Item (5::nat)), Put (Item 6), Close] (channel [])) = [] \<and>
   takers (chan_run expanding [Take 1, Take 2, Put (Item (5::nat))] (channel [])) \<noteq> [] \<and>
   buf_isEmpty expanding
     (buffer (chan_run expanding [Take 1, Take 2, Put (Item (5::nat))] (channel [])))"
  using
    channel_forbidden_states_unreachable
      [of expanding "[Take 1, Put (Item (5::nat)), Put (Item 6), Close]" "[]"]
    channel_forbidden_states_unreachable
      [of expanding "[Take 1, Take 2, Put (Item (5::nat))]" "[]"]
  by (simp add: chan_eval)






section \<open>Properties of the event channel\<close>

lemmas event_eval = eventChannel_def call_subscribe_def emit_def close_ev_def is_func_def
  call_unsubscribe_def isEnd_def event_step_def none_buffer_def

lemma close_ch_closed: "close_ch B c = Inr c' \<Longrightarrow> closed c'"
  by (auto simp: close_ch_def Let_def split: option.splits if_splits)

lemma put_ch_closed: "put_ch B v c = Inr c' \<Longrightarrow> closed c \<Longrightarrow> closed c'"
  by (auto simp: put_ch_def split: option.splits if_splits)

lemma emit_before_return:
  assumes "emit B x s = Inr s'" and "unsubscribe s = Undefined"
  shows "unsubscribe s' = Undefined \<and> unsubscribed s' = unsubscribed s \<and>
         (closed_ev s \<and> closed (chan s) \<longrightarrow> closed_ev s' \<and> closed (chan s')) \<and>
         (isEnd x \<longrightarrow> closed_ev s' \<and> closed (chan s'))"
  using assms
  by (auto simp: emit_def close_ev_def is_func_def Let_def
      split: sum.splits if_splits dest: close_ch_closed put_ch_closed)

lemma emit_all_before_return:
  assumes "emit_all B xs s = Inr s'" and "unsubscribe s = Undefined"
  shows "unsubscribe s' = Undefined \<and> unsubscribed s' = unsubscribed s \<and>
         (closed_ev s \<and> closed (chan s) \<longrightarrow> closed_ev s' \<and> closed (chan s')) \<and>
         ((\<exists>x \<in> set xs. isEnd x) \<longrightarrow> closed_ev s' \<and> closed (chan s'))"
  using assms
proof (induction xs arbitrary: s)
  case Nil
  then show ?case by simp
next
  case (Cons x xs)
  from Cons.prems obtain s1 where e: "emit B x s = Inr s1" and r: "emit_all B xs s1 = Inr s'"
    by (auto split: sum.splits)
  note h = emit_before_return [OF e Cons.prems(2)]
  note ih = Cons.IH [OF r]
  from h ih show ?case by auto
qed

lemma settled_step: "settled_ev s \<Longrightarrow> event_step B op s = Inr s' \<Longrightarrow> settled_ev s'"
  by (cases op)
     (auto simp: settled_ev_def event_step_def emit_def close_ev_def is_func_def
        call_unsubscribe_def Let_def split: sum.splits if_splits)

lemma settled_run: "settled_ev s \<Longrightarrow> settled_ev (event_run B ops s)"
proof (induction ops arbitrary: s)
  case Nil
  then show ?case by simp
next
  case (Cons op ops)
  then show ?case
    by (cases "event_step B op s") (auto dest: settled_step)
qed

text \<open>
  Claim C10. Suppose the call of \<open>subscribe\<close> returns a function, and \<open>END\<close> is among
  the inputs it emitted before returning. Then \<open>eventChannel\<close> returns a channel
  (construction succeeds) whose inner channel is closed. The function returned by
  \<open>subscribe\<close> has not been called when \<open>subscribe\<close> returns (\<open>s1\<close> is the state at
  that moment), it has been called once when \<open>eventChannel\<close> returns, and whatever
  is done with the channel afterwards (\<open>take\<close>, \<open>flush\<close>, \<open>close\<close>, further emissions)
  it is not called again.
\<close>

theorem eventChannel_sync_end:
  assumes ret: "call_subscribe B sub
        \<lparr>closed_ev = False, unsubscribe = Undefined, chan = channel b, unsubscribed = 0\<rparr> =
        Inr (RawFn, s1)"
    and sync: "END \<in> set (emits sub)"
  shows "\<exists>s. eventChannel B sub b = Inr s \<and> closed (chan s) \<and>
           unsubscribed s1 = 0 \<and> unsubscribed s = 1 \<and>
           (\<forall>ops. unsubscribed (event_run B ops s) = 1)"
proof -
  let ?s0 = "\<lparr>closed_ev = False, unsubscribe = Undefined, chan = channel b, unsubscribed = 0\<rparr>"
  from ret have all: "emit_all B (emits sub) ?s0 = Inr s1"
    by (auto simp: call_subscribe_def split: sum.splits)
  from sync have "\<exists>x \<in> set (emits sub). isEnd x"
    by (auto simp: isEnd_def intro!: bexI [of _ END])
  with emit_all_before_return [OF all] have s1:
    "unsubscribe s1 = Undefined" "unsubscribed s1 = 0" "closed_ev s1" "closed (chan s1)"
    by simp_all
  let ?s = "s1\<lparr>unsubscribe := OnceFn True, unsubscribed := 1\<rparr>"
  from ret s1 have built: "eventChannel B sub b = Inr ?s"
    by (simp add: eventChannel_def is_func_def call_unsubscribe_def)
  have "settled_ev ?s"
    by (simp add: settled_ev_def)
  then have "\<forall>ops. unsubscribed (event_run B ops ?s) = 1"
    using settled_run [of ?s B] by (simp add: settled_ev_def)
  with built s1 show ?thesis by simp
qed

theorem eventChannel_sync_end_witness:
  "call_subscribe none_buffer \<lparr>emits = [Item (1::nat), END, Item 2], returns_function = True\<rparr>
      \<lparr>closed_ev = False, unsubscribe = Undefined, chan = channel (), unsubscribed = 0\<rparr> =
     Inr (RawFn, \<lparr>closed_ev = True, unsubscribe = Undefined,
                  chan = \<lparr>closed = True, takers = [], buffer = (), calls = []\<rparr>,
                  unsubscribed = 0\<rparr>) \<and>
   END \<in> set (emits \<lparr>emits = [Item (1::nat), END, Item 2], returns_function = True\<rparr>) \<and>
   eventChannel none_buffer \<lparr>emits = [Item (1::nat), END, Item 2], returns_function = True\<rparr> () =
     Inr \<lparr>closed_ev = True, unsubscribe = OnceFn True,
          chan = \<lparr>closed = True, takers = [], buffer = (), calls = []\<rparr>, unsubscribed = 1\<rparr> \<and>
   unsubscribed (event_run none_buffer [EvClose, EvEmit END, EvTake 3]
     \<lparr>closed_ev = True, unsubscribe = OnceFn True,
      chan = \<lparr>closed = True, takers = [], buffer = (), calls = []\<rparr>, unsubscribed = 1\<rparr>) = 1"
proof -
  have ret: "call_subscribe none_buffer
      \<lparr>emits = [Item (1::nat), END, Item 2], returns_function = True\<rparr>
      \<lparr>closed_ev = False, unsubscribe = Undefined, chan = channel (), unsubscribed = 0\<rparr> =
     Inr (RawFn, \<lparr>closed_ev = True, unsubscribe = Undefined,
                  chan = \<lparr>closed = True, takers = [], buffer = (), calls = []\<rparr>,
                  unsubscribed = 0\<rparr>)"
    by (simp add: event_eval chan_eval)
  have sync: "END \<in> set (emits \<lparr>emits = [Item (1::nat), END, Item 2], returns_function = True\<rparr>)"
    by simp
  from eventChannel_sync_end [OF ret sync] ret sync show ?thesis
    by (auto simp: event_eval chan_eval)
qed


section \<open>Properties of the completion guard\<close>

lemmas digest_eval = digest_run_def digest_step_def currCb_def installed_cancel_def
  call_cb_cancel_def call_currCb_cancel_def digestEffect_def settlements_def
  is_continuation_def is_runner_cancel_def

lemma digest_inv_init: "digest_inv (digestEffect m)"
  by (simp add: digest_inv_def digestEffect_def settlements_def is_continuation_def
      is_runner_cancel_def)

lemma digest_inv_currCb: "digest_inv s \<Longrightarrow> digest_inv (currCb m r e s)"
  by (auto simp: digest_inv_def currCb_def settlements_def is_continuation_def
      is_runner_cancel_def Let_def)

lemma digest_inv_installed_cancel: "digest_inv s \<Longrightarrow> digest_inv (installed_cancel m s)"
  by (auto simp: digest_inv_def installed_cancel_def call_currCb_cancel_def settlements_def
      is_continuation_def is_runner_cancel_def Let_def split: runner_cancel.splits)

lemma digest_inv_set: "digest_inv s \<Longrightarrow> digest_inv (s\<lparr>currCb_cancel := f\<rparr>)"
  by (simp add: digest_inv_def settlements_def)

lemma digest_inv_step: "digest_inv s \<Longrightarrow> digest_inv (digest_step m op s)"
  by (cases op)
     (simp_all add: digest_step_def call_cb_cancel_def digest_inv_set digest_inv_currCb
        digest_inv_installed_cancel split: cancel_slot.splits)

lemma digest_inv_run: "digest_inv s \<Longrightarrow> digest_inv (digest_run m ops s)"
  unfolding digest_run_def
  by (induction ops arbitrary: s) (simp_all add: digest_inv_step)

lemma settled_currCb: "effectSettled (currCb m r e s)"
  by (simp add: currCb_def Let_def)

lemma settled_installed_cancel: "effectSettled (installed_cancel m s)"
  by (simp add: installed_cancel_def call_currCb_cancel_def Let_def split: runner_cancel.splits)

lemma settled_noop:
  assumes "effectSettled s"
  shows "currCb m r e s = s" and "installed_cancel m s = s" and "call_cb_cancel m s = s"
  using assms by (simp_all add: currCb_def installed_cancel_def call_cb_cancel_def
      split: cancel_slot.splits)

text \<open>
  Claim C1. Take the state \<open>s\<close> of a digested effect after any sequence of calls of
  \<open>currCb\<close>, of the installed cancel closure, of \<open>cb.cancel()\<close> and of assignments to
  \<open>currCb.cancel\<close>. The effect has been settled at most once: the calls of the
  continuation \<open>cb\<close> and of the runner's cancellation function number at most one
  together, so \<open>cb\<close> has been called at most once. After a call of \<open>currCb\<close>, calling
  the installed closure, or \<open>cb.cancel()\<close>, changes nothing; after a call of the
  installed closure, calling \<open>currCb\<close> changes nothing.
\<close>

theorem effect_settled_at_most_once:
  assumes "s = digest_run m ops (digestEffect m)"
  shows "settlements s \<le> 1 \<and>
         length (filter is_continuation (trace s)) \<le> 1 \<and>
         installed_cancel m (currCb m res isErr s) = currCb m res isErr s \<and>
         call_cb_cancel m (currCb m res isErr s) = currCb m res isErr s \<and>
         currCb m res isErr (installed_cancel m s) = installed_cancel m s"
proof -
  have "digest_inv s"
    unfolding assms by (rule digest_inv_run [OF digest_inv_init])
  then have "settlements s \<le> 1"
    by (simp add: digest_inv_def)
  moreover from this have "length (filter is_continuation (trace s)) \<le> 1"
    by (simp add: settlements_def)
  ultimately show ?thesis
    by (simp add: settled_noop settled_currCb settled_installed_cancel)
qed

theorem effect_settled_at_most_once_witness:
  "trace (digest_run True
      [SetCurrCbCancel (RunnerCancel True), Complete (3::nat) False, CallCbCancel,
       CallInstalledCancel, Complete 4 True] (digestEffect True)) =
     [EffectTriggered, EffectResolved 3, ContinuationCalled 3 False] \<and>
   trace (digest_run True
      [SetCurrCbCancel (RunnerCancel True), CallCbCancel, Complete (3::nat) False,
       CallInstalledCancel] (digestEffect True)) =
     [EffectTriggered, RunnerCancelCalled, ErrorLogged, EffectCancelled] \<and>
   settlements (digest_run True
      [SetCurrCbCancel (RunnerCancel True), Complete (3::nat) False, CallCbCancel,
       CallInstalledCancel, Complete 4 True] (digestEffect True)) = 1"
  using effect_settled_at_most_once
    [of "digest_run True
      [SetCurrCbCancel (RunnerCancel True), Complete (3::nat) False, CallCbCancel,
       CallInstalledCancel, Complete 4 True] (digestEffect True)" True
      "[SetCurrCbCancel (RunnerCancel True), Complete (3::nat) False, CallCbCancel,
       CallInstalledCancel, Complete 4 True]" 5 True]
  by (simp add: digest_eval)


section \<open>Properties of the fork queue and of task cancellation\<close>


































section \<open>Properties of the scheduler and the multicast channel\<close>

subsection \<open>The arrays of takers are never changed once published\<close>
































subsection \<open>Inside a task nothing is executed; outside, tasks run one after the other\<close>








lemma asap_locked: "semaphore s \<noteq> 0 \<Longrightarrow> asap call n task s = s\<lparr>queue := queue s @ [task]\<rparr>"
  by (simp add: asap_def)











lemma semaphore_suspend: "semaphore (suspend s) = semaphore s + 1" "hist (suspend s) = hist s"
  by (simp_all add: suspend_def)





lemma no_nesting_append:
  "no_nesting cur (xs @ ys) = (no_nesting cur xs \<and> no_nesting (on_stack cur xs) ys)"
  by (induction cur xs rule: no_nesting.induct) auto

lemma on_stack_append: "on_stack cur (xs @ ys) = on_stack (on_stack cur xs) ys"
  by (induction cur xs rule: on_stack.induct) auto

lemma no_nesting_jobs: "no_nesting cur (filter is_job_event h) = no_nesting cur h"
  by (induction cur h rule: no_nesting.induct) auto

lemma on_stack_jobs: "on_stack cur (filter is_job_event h) = on_stack cur h"
  by (induction cur h rule: on_stack.induct) auto

lemma idle_jobs: "jobs_of s' = jobs_of s \<Longrightarrow> idle s' = idle s"
  unfolding idle_def jobs_of_def
  by (metis no_nesting_jobs on_stack_jobs)

lemma good_idle: "good s \<Longrightarrow> status s \<noteq> Exhausted \<Longrightarrow> idle s"
  by (simp add: good_def idle_def)




lemma serial_then:
  "serial s s1 \<Longrightarrow> (status s1 \<noteq> Exhausted \<Longrightarrow> serial s1 s2) \<Longrightarrow>
   (status s1 = Exhausted \<Longrightarrow> s2 = s1) \<Longrightarrow> serial s s2"
  by (auto simp: serial_def dest: good_idle)


lemma serial_invoked: "serial s (record_hist (Invoked cb input) s)"
  by (simp add: serial_def idle_def good_def record_hist_def no_nesting_append on_stack_append)























subsection \<open>The claims about the runtime\<close>

lemmas runtime_eval = host.simps run.simps step_def invoke.simps put_mc_def put_loop.simps
  close_mc_def close_loop.simps take_mc_def call_cancel_def cancel_closure_def
  ensureCanMutateNextTakers_def put_std_def asap_def flush_def flush_loop.simps exec_def
  suspend_def release_def throw_def exhaust_def record_hist_def runtime0_def
  isEnd_action_def END_action_def CHANNEL_END_TYPE_def remove_def Let_def
  plain_def internal_def wildcard_def of_type_def

lemma ensure_contents:
  "arrays (ensureCanMutateNextTakers s) (nextTakers (ensureCanMutateNextTakers s)) =
     arrays s (nextTakers s)"
  by (simp add: ensureCanMutateNextTakers_def)






lemma release_suspend: "release (suspend s) = s"
  by (simp add: release_def suspend_def)

lemma asap_released:
  "semaphore s = 0 \<Longrightarrow>
   asap call n task s = flush_loop call n (s\<lparr>queue := queue s @ [task]\<rparr>)"
  by (simp add: asap_def flush_def release_suspend Let_def)

text \<open>
  Claim C6. The \<open>put\<close> of the standard channel, for any state of the runtime. If the
  input carries the flag \<open>SAGA_ACTION\<close>, the call is the multicast \<open>put\<close> itself, made
  at once, whatever the semaphore. Otherwise the closure \<open>() => put(input)\<close> goes to
  \<open>asap\<close>: while the scheduler is suspended (the semaphore is not 0) the call only
  appends it to the queue, and nothing is delivered; when the scheduler is released
  (the semaphore is 0) the call runs the queue, in order, with the closure last.
  The closure, when the scheduler runs it, is the multicast \<open>put\<close>.
\<close>

theorem put_std_dispatch:
  "(saga_action input \<longrightarrow> put_std call n input s = put_mc call n input s) \<and>
   (\<not> saga_action input \<and> semaphore s \<noteq> 0 \<longrightarrow>
      put_std call n input s = s\<lparr>queue := queue s @ [PutJob input]\<rparr>) \<and>
   (\<not> saga_action input \<and> semaphore s = 0 \<longrightarrow>
      put_std call n input s = flush_loop call n (s\<lparr>queue := queue s @ [PutJob input]\<rparr>)) \<and>
   invoke e (Suc m) (Job (PutJob input)) s =
     (let s2 = put_mc (invoke e m) m input (record_hist (Begin (PutJob input)) s)
      in if status s2 = Exhausted then s2 else record_hist (End (PutJob input)) s2)"
  by (simp add: put_std_def asap_locked asap_released Let_def)

theorem put_std_dispatch_witness:
  "semaphore (host env_silent 5 [TakeMc 1 wildcard, TakeMc 2 (of_type ''B''), Suspend] runtime0) = 1 \<and>
   saga_action (internal ''S'') \<and> \<not> saga_action (plain ''B'') \<and>
   hist (host env_silent 5
     [TakeMc 1 wildcard, TakeMc 2 (of_type ''B''), Suspend, PutStd (plain ''B''),
      PutStd (internal ''S'')] runtime0) = [Invoked 1 (internal ''S'')] \<and>
   queue (host env_silent 5
     [TakeMc 1 wildcard, TakeMc 2 (of_type ''B''), Suspend, PutStd (plain ''B''),
      PutStd (internal ''S'')] runtime0) = [PutJob (plain ''B'')] \<and>
   hist (host env_silent 5
     [TakeMc 1 wildcard, TakeMc 2 (of_type ''B''), Suspend, PutStd (plain ''B''),
      PutStd (internal ''S''), Flush] runtime0) =
     [Invoked 1 (internal ''S''), Begin (PutJob (plain ''B'')), Invoked 2 (plain ''B''),
      End (PutJob (plain ''B''))] \<and>
   hist (host env_silent 5 [TakeMc 2 (of_type ''B''), PutStd (plain ''B'')] runtime0) =
     [Begin (PutJob (plain ''B'')), Invoked 2 (plain ''B''), End (PutJob (plain ''B''))]"
  using
    put_std_dispatch [of "internal ''S''" "invoke env_silent 5" 5
      "host env_silent 5 [TakeMc 1 wildcard, TakeMc 2 (of_type ''B''), Suspend,
         PutStd (plain ''B'')] runtime0" env_silent 4]
    put_std_dispatch [of "plain ''B''" "invoke env_silent 5" 5
      "host env_silent 5 [TakeMc 1 wildcard, TakeMc 2 (of_type ''B''), Suspend] runtime0"
      env_silent 4]
  by (simp add: runtime_eval env_silent_def eval_nat_numeral)





end
